theory Spec2Isabelle
  imports Complex_Main
begin

section \<open>Numeric model\<close>

text \<open>
  The scripts compute with Python integers (unbounded, modelled as \<^typ>\<open>int\<close>) and with
  IEEE double precision numbers.  A double is modelled by the type \<open>fl\<close>: a finite value
  is a real number, and the three special values that numpy arithmetic produces instead
  of raising (plus infinity, minus infinity, not-a-number) are constructors of their own.
  Rounding, overflow of finite values and the sign of zero are outside this model: finite
  arithmetic is exact, and a zero divisor counts as positive zero.
\<close>

datatype fl = Fin real | PInf | NInf | NaN

datatype py_error =
  ValueError | ZeroDivisionError | IndexError | TypeError | KeyError | FileNotFoundError | OtherError

fun fl_neg :: "fl \<Rightarrow> fl" where
  "fl_neg (Fin a) = Fin (- a)"
| "fl_neg PInf = NInf"
| "fl_neg NInf = PInf"
| "fl_neg NaN = NaN"

fun fl_add :: "fl \<Rightarrow> fl \<Rightarrow> fl" where
  "fl_add NaN _ = NaN"
| "fl_add _ NaN = NaN"
| "fl_add PInf NInf = NaN"
| "fl_add NInf PInf = NaN"
| "fl_add PInf _ = PInf"
| "fl_add _ PInf = PInf"
| "fl_add NInf _ = NInf"
| "fl_add _ NInf = NInf"
| "fl_add (Fin a) (Fin b) = Fin (a + b)"

definition fl_sub :: "fl \<Rightarrow> fl \<Rightarrow> fl" where
  "fl_sub x y = fl_add x (fl_neg y)"

text \<open>The sign of a value, for products and quotients with an infinity.\<close>

fun fl_positive :: "fl \<Rightarrow> bool" where
  "fl_positive (Fin a) = (0 \<le> a)"
| "fl_positive PInf = True"
| "fl_positive NInf = False"
| "fl_positive NaN = False"

fun fl_mul :: "fl \<Rightarrow> fl \<Rightarrow> fl" where
  "fl_mul NaN _ = NaN"
| "fl_mul _ NaN = NaN"
| "fl_mul (Fin a) (Fin b) = Fin (a * b)"
| "fl_mul (Fin a) y = (if a = 0 then NaN else if fl_positive (Fin a) = fl_positive y then PInf else NInf)"
| "fl_mul x (Fin b) = (if b = 0 then NaN else if fl_positive x = fl_positive (Fin b) then PInf else NInf)"
| "fl_mul x y = (if fl_positive x = fl_positive y then PInf else NInf)"

text \<open>
  numpy division: a zero divisor gives an infinity or not-a-number (with a warning), it
  does not raise.
\<close>

fun fl_div :: "fl \<Rightarrow> fl \<Rightarrow> fl" where
  "fl_div NaN _ = NaN"
| "fl_div _ NaN = NaN"
| "fl_div (Fin a) (Fin b) =
     (if b = 0 then (if a = 0 then NaN else if 0 < a then PInf else NInf) else Fin (a / b))"
| "fl_div (Fin a) _ = Fin 0"
| "fl_div x (Fin b) = (if fl_positive x = fl_positive (Fin b) then PInf else NInf)"
| "fl_div _ _ = NaN"

definition fl_pow2 :: "fl \<Rightarrow> fl" where
  "fl_pow2 x = fl_mul x x"

fun fl_sqrt :: "fl \<Rightarrow> fl" where
  "fl_sqrt (Fin a) = (if a < 0 then NaN else Fin (sqrt a))"
| "fl_sqrt PInf = PInf"
| "fl_sqrt NInf = NaN"
| "fl_sqrt NaN = NaN"

fun fl_abs :: "fl \<Rightarrow> fl" where
  "fl_abs (Fin a) = Fin \<bar>a\<bar>"
| "fl_abs PInf = PInf"
| "fl_abs NInf = PInf"
| "fl_abs NaN = NaN"

text \<open>Comparisons: every comparison with not-a-number is false.\<close>

fun fl_lt :: "fl \<Rightarrow> fl \<Rightarrow> bool" where
  "fl_lt NaN _ = False"
| "fl_lt _ NaN = False"
| "fl_lt (Fin a) (Fin b) = (a < b)"
| "fl_lt _ NInf = False"
| "fl_lt NInf _ = True"
| "fl_lt PInf _ = False"
| "fl_lt _ PInf = True"

definition fl_gt :: "fl \<Rightarrow> fl \<Rightarrow> bool" where
  "fl_gt x y = fl_lt y x"

fun fl_eq :: "fl \<Rightarrow> fl \<Rightarrow> bool" where
  "fl_eq NaN _ = False"
| "fl_eq _ NaN = False"
| "fl_eq x y = (x = y)"

definition fl_le :: "fl \<Rightarrow> fl \<Rightarrow> bool" where
  "fl_le x y = (fl_lt x y \<or> fl_eq x y)"

definition fl_ge :: "fl \<Rightarrow> fl \<Rightarrow> bool" where
  "fl_ge x y = fl_le y x"

definition fl_of_int :: "int \<Rightarrow> fl" where
  "fl_of_int i = Fin (real_of_int i)"

section \<open>weighted\_mean.py\<close>

text \<open>Python's true division of two integers raises on a zero divisor.\<close>

definition int_truediv :: "int \<Rightarrow> int \<Rightarrow> py_error + real" where
  "int_truediv a b = (if b = 0 then Inl ZeroDivisionError else Inr (real_of_int a / real_of_int b))"

text \<open>What \<open>weighted_mean\<close> prints: the message of the empty case, or the mean.\<close>

datatype wm_output = NoRespondents | WeightedMean real

definition weighted_mean :: "int \<Rightarrow> int \<Rightarrow> int \<Rightarrow> int \<Rightarrow> py_error + wm_output" where
  "weighted_mean f4 f3 f2 f1 =
     (let weighted_sum = (4 * f4) + (3 * f3) + (2 * f2) + (1 * f1);
          total_f = f4 + f3 + f2 + f1
      in if total_f = 0 then Inr NoRespondents
         else (case int_truediv weighted_sum total_f of
                 Inl e \<Rightarrow> Inl e
               | Inr w_mean \<Rightarrow> Inr (WeightedMean w_mean)))"

section \<open>stats\_utils.py: the critical value of Pearson's r\<close>

text \<open>
  The validators receive what the entry field holds and convert it with \<open>float\<close>; the
  argument here is the outcome of that conversion (\<open>Inl\<close> when \<open>float\<close> raises).
  They return the pair (is\_valid, error\_message).
\<close>

fun is_integer :: "fl \<Rightarrow> bool" where
  "is_integer (Fin a) = (real_of_int \<lfloor>a\<rfloor> = a)"
| "is_integer _ = False"

definition validate_sample_size :: "py_error + fl \<Rightarrow> bool \<times> string" where
  "validate_sample_size conv =
     (case conv of
        Inl _ \<Rightarrow> (False, ''Sample size must be a valid number'')
      | Inr n \<Rightarrow>
          if fl_lt n (Fin 3) then (False, ''Sample size must be at least 3'')
          else if \<not> is_integer n then (False, ''Sample size must be a whole number'')
          else (True, []))"

definition validate_alpha :: "py_error + fl \<Rightarrow> bool \<times> string" where
  "validate_alpha conv =
     (case conv of
        Inl _ \<Rightarrow> (False, ''Alpha must be a valid number'')
      | Inr a \<Rightarrow>
          if fl_le a (Fin 0) \<or> fl_ge a (Fin 1)
          then (False, ''Alpha must be between 0 and 1 (exclusive)'')
          else (True, []))"

definition compute_degrees_of_freedom :: "int \<Rightarrow> int" where
  "compute_degrees_of_freedom n = n - 2"

text \<open>
  \<open>scipy.stats.t.ppf\<close>, the inverse distribution function of Student's t, is library code:
  it is the parameter \<open>ppf\<close> (probability mass, degrees of freedom) of everything that
  calls it.
\<close>

definition compute_t_critical :: "(fl \<Rightarrow> int \<Rightarrow> fl) \<Rightarrow> fl \<Rightarrow> int \<Rightarrow> string \<Rightarrow> fl" where
  "compute_t_critical ppf a df tt =
     (if tt = ''two-tailed'' then ppf (fl_sub (Fin 1) (fl_div a (Fin 2))) df
      else ppf (fl_sub (Fin 1) a) df)"

record critical_value_result =
  sample_size :: int
  alpha :: fl
  test_type :: string
  degrees_of_freedom :: int
  t_critical :: fl
  r_critical :: fl

text \<open>
  \<open>compute_pearson_r_critical\<close> has no failing branch: it returns its dictionary for
  every argument.
\<close>

definition compute_pearson_r_critical ::
  "(fl \<Rightarrow> int \<Rightarrow> fl) \<Rightarrow> int \<Rightarrow> fl \<Rightarrow> string \<Rightarrow> py_error + critical_value_result" where
  "compute_pearson_r_critical ppf n a tt =
     (let df = compute_degrees_of_freedom n;
          t_crit = compute_t_critical ppf a df tt;
          r_crit = fl_sqrt (fl_div (fl_pow2 t_crit) (fl_add (fl_pow2 t_crit) (fl_of_int df)))
      in Inr \<lparr>sample_size = n, alpha = a, test_type = tt, degrees_of_freedom = df,
              t_critical = t_crit, r_critical = r_crit\<rparr>)"

text \<open>The script \<open>pearsonR.py\<close>: the same computation at its constants.\<close>

definition pearsonR_t_crit :: "(fl \<Rightarrow> int \<Rightarrow> fl) \<Rightarrow> fl" where
  "pearsonR_t_crit ppf = ppf (fl_sub (Fin 1) (fl_div (Fin (5 / 100)) (Fin 2))) (99 - 2)"

definition pearsonR_r_crit :: "(fl \<Rightarrow> int \<Rightarrow> fl) \<Rightarrow> fl" where
  "pearsonR_r_crit ppf =
     fl_sqrt (fl_div (fl_pow2 (pearsonR_t_crit ppf))
                     (fl_add (fl_pow2 (pearsonR_t_crit ppf)) (fl_of_int (99 - 2))))"

section \<open>ANOVA1.py and anova.py: the one-way decomposition\<close>

text \<open>
  \<open>np.mean\<close> divides the sum by the count; on an empty array that is \<open>0.0 / 0\<close>, not-a-number.
  \<open>np.sum\<close>, the builtin \<open>sum\<close> and an accumulating loop all add up from zero (the order
  of the additions does not matter in this model).  The observations themselves are finite.
\<close>

definition np_mean :: "real list \<Rightarrow> fl" where
  "np_mean xs = fl_div (Fin (sum_list xs)) (Fin (real (length xs)))"

definition fl_sum :: "fl list \<Rightarrow> fl" where
  "fl_sum xs = foldl fl_add (Fin 0) xs"

record anova_result =
  anova_SS_between :: fl
  anova_SS_within :: fl
  anova_SS_total :: fl
  anova_df_between :: int
  anova_df_within :: int
  anova_MS_between :: fl
  anova_MS_within :: fl
  anova_F_calculated :: fl

text \<open>
  \<open>manual_anova\<close> of \<open>ANOVA1.py\<close>.  \<open>np.concatenate\<close> raises \<open>ValueError\<close> on an empty
  list of arrays; nothing else in the function raises, and no argument is checked.
\<close>

definition manual_anova :: "real list list \<Rightarrow> py_error + anova_result" where
  "manual_anova groups =
     (if groups = [] then Inl ValueError
      else
        let all_data = concat groups;
            grand_mean = np_mean all_data;
            k = int (length groups);
            N = int (length all_data);
            SS_total = fl_sum (map (\<lambda>x. fl_pow2 (fl_sub (Fin x) grand_mean)) all_data);
            SS_between =
              fl_sum (map (\<lambda>g. fl_mul (fl_of_int (int (length g)))
                                      (fl_pow2 (fl_sub (np_mean g) grand_mean))) groups);
            SS_within = fl_sub SS_total SS_between;
            df_between = k - 1;
            df_within = N - k;
            MS_between = fl_div SS_between (fl_of_int df_between);
            MS_within = fl_div SS_within (fl_of_int df_within);
            F_calculated = fl_div MS_between MS_within
        in Inr \<lparr>anova_SS_between = SS_between, anova_SS_within = SS_within,
                anova_SS_total = SS_total, anova_df_between = df_between,
                anova_df_within = df_within, anova_MS_between = MS_between,
                anova_MS_within = MS_within, anova_F_calculated = F_calculated\<rparr>)"

text \<open>
  \<open>manual_anova\<close> of \<open>anova.py\<close> differs in one place: the sum of squares between groups
  is accumulated by a \<open>for\<close> loop.
\<close>

fun ss_between_loop :: "fl \<Rightarrow> fl \<Rightarrow> real list list \<Rightarrow> fl" where
  "ss_between_loop grand_mean acc [] = acc"
| "ss_between_loop grand_mean acc (g # gs) =
     ss_between_loop grand_mean
       (fl_add acc (fl_mul (fl_of_int (int (length g))) (fl_pow2 (fl_sub (np_mean g) grand_mean))))
       gs"

definition manual_anova_loop :: "real list list \<Rightarrow> py_error + anova_result" where
  "manual_anova_loop groups =
     (if groups = [] then Inl ValueError
      else
        let all_data = concat groups;
            grand_mean = np_mean all_data;
            k = int (length groups);
            N = int (length all_data);
            SS_total = fl_sum (map (\<lambda>x. fl_pow2 (fl_sub (Fin x) grand_mean)) all_data);
            SS_between = ss_between_loop grand_mean (Fin 0) groups;
            SS_within = fl_sub SS_total SS_between;
            df_between = k - 1;
            df_within = N - k;
            MS_between = fl_div SS_between (fl_of_int df_between);
            MS_within = fl_div SS_within (fl_of_int df_within);
            F_calculated = fl_div MS_between MS_within
        in Inr \<lparr>anova_SS_between = SS_between, anova_SS_within = SS_within,
                anova_SS_total = SS_total, anova_df_between = df_between,
                anova_df_within = df_within, anova_MS_between = MS_between,
                anova_MS_within = MS_within, anova_F_calculated = F_calculated\<rparr>)"

text \<open>
  The decomposition as the specification words it, in exact arithmetic, to compare
  \<open>manual_anova\<close> with:
  the grand mean, the sums of squares and the mean squares as real numbers.
\<close>

definition spec_grand_mean :: "real list list \<Rightarrow> real" where
  "spec_grand_mean groups = sum_list (concat groups) / real (length (concat groups))"

definition spec_SS_between :: "real list list \<Rightarrow> real" where
  "spec_SS_between groups =
     (\<Sum>g\<leftarrow>groups. real (length g) * (sum_list g / real (length g) - spec_grand_mean groups)\<^sup>2)"

definition spec_SS_total :: "real list list \<Rightarrow> real" where
  "spec_SS_total groups = (\<Sum>x\<leftarrow>concat groups. (x - spec_grand_mean groups)\<^sup>2)"

definition spec_MS_between :: "real list list \<Rightarrow> real" where
  "spec_MS_between groups = spec_SS_between groups / (real (length groups) - 1)"

definition spec_MS_within :: "real list list \<Rightarrow> real" where
  "spec_MS_within groups =
     (spec_SS_total groups - spec_SS_between groups) /
     (real (length (concat groups)) - real (length groups))"

section \<open>t-test.py: Welch's test\<close>

text \<open>
  \<open>compute_ttest\<close> works on Python floats, whose division raises \<open>ZeroDivisionError\<close> on a
  zero divisor.  A computation that may raise is a value of \<open>py_error + 'a\<close>, and
  \<open>py_bind\<close> runs the rest of it on the value of a step that did not raise.
\<close>

definition py_fdiv :: "real \<Rightarrow> real \<Rightarrow> py_error + real" where
  "py_fdiv a b = (if b = 0 then Inl ZeroDivisionError else Inr (a / b))"

definition py_bind :: "py_error + 'a \<Rightarrow> ('a \<Rightarrow> py_error + 'b) \<Rightarrow> py_error + 'b" where
  "py_bind m f = (case m of Inl e \<Rightarrow> Inl e | Inr x \<Rightarrow> f x)"

record welch_result =
  welch_mean1 :: real
  welch_mean2 :: real
  welch_n1 :: nat
  welch_n2 :: nat
  welch_t_statistic :: fl
  welch_df :: real
  welch_p_value :: fl
  welch_conclusion :: string

text \<open>
  What a call of \<open>compute_ttest\<close> ends in: an input error dialog and an early return, the
  dialog of the exception handler, or the stored results.
\<close>

datatype ttest_outcome =
  InputErrorDialog string
| ExceptionDialog py_error
| Results welch_result

text \<open>
  The statements after the size checks.  \<open>scipy.stats.ttest_ind\<close> is library code that
  returns the statistic and the p-value: the parameter \<open>ttest_ind\<close>.
\<close>

definition welch_statistics ::
  "(real list \<Rightarrow> real list \<Rightarrow> fl \<times> fl) \<Rightarrow> real list \<Rightarrow> real list \<Rightarrow> py_error + welch_result" where
  "welch_statistics ttest_ind group1_data group2_data =
     py_bind (py_fdiv (sum_list group1_data) (real (length group1_data))) (\<lambda>mean1.
     py_bind (py_fdiv (sum_list group2_data) (real (length group2_data))) (\<lambda>mean2.
     let n1 = length group1_data;
         n2 = length group2_data;
         (t_statistic, p_value) = ttest_ind group1_data group2_data
     in
     py_bind (py_fdiv (\<Sum>x\<leftarrow>group1_data. (x - mean1)\<^sup>2) (real n1 - 1)) (\<lambda>var1.
     py_bind (py_fdiv (\<Sum>x\<leftarrow>group2_data. (x - mean2)\<^sup>2) (real n2 - 1)) (\<lambda>var2.
     py_bind (py_fdiv var1 (real n1)) (\<lambda>q1.
     py_bind (py_fdiv var2 (real n2)) (\<lambda>q2.
     py_bind (py_fdiv (q1\<^sup>2) (real n1 - 1)) (\<lambda>d1.
     py_bind (py_fdiv (q2\<^sup>2) (real n2 - 1)) (\<lambda>d2.
     py_bind (py_fdiv ((q1 + q2)\<^sup>2) (d1 + d2)) (\<lambda>df.
     Inr \<lparr>welch_mean1 = mean1, welch_mean2 = mean2, welch_n1 = n1, welch_n2 = n2,
          welch_t_statistic = t_statistic, welch_df = df, welch_p_value = p_value,
          welch_conclusion =
            (if fl_le p_value (Fin (5 / 100))
             then ''There is a significant difference between the two groups.''
             else ''There is no significant difference between the two groups.'')\<rparr>)))))))))"

text \<open>
  \<open>compute_ttest\<close> on the two lists of numbers that \<open>parse_input\<close> extracted from the
  text boxes.
\<close>

definition compute_ttest ::
  "(real list \<Rightarrow> real list \<Rightarrow> fl \<times> fl) \<Rightarrow> real list \<Rightarrow> real list \<Rightarrow> ttest_outcome" where
  "compute_ttest ttest_ind group1_data group2_data =
     (if length group1_data = 0 \<or> length group2_data = 0
      then InputErrorDialog ''No valid numeric values found. Please enter numeric data.''
      else if length group1_data < 2 \<or> length group2_data < 2
      then InputErrorDialog ''Each group must have at least 2 values.''
      else (case welch_statistics ttest_ind group1_data group2_data of
              Inl e \<Rightarrow> ExceptionDialog e
            | Inr r \<Rightarrow> Results r))"

text \<open>
  The sample variance with Bessel's correction and the Welch-Satterthwaite degrees of
  freedom as the specification words them, to compare \<open>compute_ttest\<close> with.
\<close>

definition spec_variance :: "real list \<Rightarrow> real" where
  "spec_variance xs =
     (\<Sum>x\<leftarrow>xs. (x - sum_list xs / real (length xs))\<^sup>2) / (real (length xs) - 1)"

definition spec_welch_df :: "real \<Rightarrow> nat \<Rightarrow> real \<Rightarrow> nat \<Rightarrow> real" where
  "spec_welch_df var1 n1 var2 n2 =
     (var1 / real n1 + var2 / real n2)\<^sup>2 /
     ((var1 / real n1)\<^sup>2 / (real n1 - 1) + (var2 / real n2)\<^sup>2 / (real n2 - 1))"

section \<open>excel\_utils.py: correlation of the columns of a sheet\<close>

text \<open>
  A pandas data frame is its number of rows and its columns in order, each with its name.
  A numeric column holds one cell per row, an empty cell (pandas' missing value) being
  \<open>None\<close>; of any other column only the fact that it is not numeric matters here.  Column
  names are distinct, as \<open>pd.read_excel\<close> makes them.
\<close>

datatype column = Numeric "real option list" | NonNumeric

record dataframe =
  df_rows :: nat
  df_columns :: "(string \<times> column) list"

text \<open>The messages of the module, with the values their format strings insert.\<close>

datatype message =
  NoMessage
| EmptyFile
| FileNotFound
| ErrorReading py_error
| ColumnNotFound string
| ColumnNotNumeric string
| NotEnoughData nat
| ZeroVariance string

text \<open>\<open>pd.read_excel\<close> is the parameter \<open>pd_read_excel\<close>: a data frame or an exception.\<close>

definition df_empty :: "dataframe \<Rightarrow> bool" where
  "df_empty df = (df_rows df = 0 \<or> df_columns df = [])"

definition read_excel_file ::
  "(string \<Rightarrow> py_error + dataframe) \<Rightarrow> string \<Rightarrow> bool \<times> dataframe option \<times> message" where
  "read_excel_file pd_read_excel filepath =
     (case pd_read_excel filepath of
        Inl e \<Rightarrow> if e = FileNotFoundError then (False, None, FileNotFound)
                 else (False, None, ErrorReading e)
      | Inr df \<Rightarrow> if df_empty df then (False, None, EmptyFile) else (True, Some df, NoMessage))"

fun is_numeric :: "column \<Rightarrow> bool" where
  "is_numeric (Numeric cells) = True"
| "is_numeric NonNumeric = False"

definition get_numeric_columns :: "dataframe \<Rightarrow> string list" where
  "get_numeric_columns df = map fst (filter (\<lambda>c. is_numeric (snd c)) (df_columns df))"

text \<open>
  \<open>df[[col1, col2]].dropna()\<close>: the rows in which both cells hold a value.
\<close>

fun dropna :: "real option list \<Rightarrow> real option list \<Rightarrow> (real \<times> real) list" where
  "dropna (Some x # xs) (Some y # ys) = (x, y) # dropna xs ys"
| "dropna (_ # xs) (_ # ys) = dropna xs ys"
| "dropna _ _ = []"

text \<open>
  The pandas standard deviation (one degree of freedom removed): not-a-number when
  fewer than two values are left.
\<close>

definition pandas_std :: "real list \<Rightarrow> fl" where
  "pandas_std xs =
     (if length xs \<le> 1 then NaN
      else fl_sqrt (Fin ((\<Sum>x\<leftarrow>xs. (x - sum_list xs / real (length xs))\<^sup>2) / (real (length xs) - 1))))"

text \<open>
  \<open>validate_columns_for_correlation\<close>.  When both names are the same numeric column,
  \<open>clean_data[col1]\<close> is a frame of two columns, its standard deviation a series, and the
  \<open>if\<close> on the comparison of a series raises \<open>ValueError\<close>.
\<close>

definition validate_columns_for_correlation ::
  "dataframe \<Rightarrow> string \<Rightarrow> string \<Rightarrow> py_error + bool \<times> message" where
  "validate_columns_for_correlation df col1 col2 =
     (case map_of (df_columns df) col1 of
        None \<Rightarrow> Inr (False, ColumnNotFound col1)
      | Some c1 \<Rightarrow>
     (case map_of (df_columns df) col2 of
        None \<Rightarrow> Inr (False, ColumnNotFound col2)
      | Some c2 \<Rightarrow>
     (case c1 of
        NonNumeric \<Rightarrow> Inr (False, ColumnNotNumeric col1)
      | Numeric cells1 \<Rightarrow>
     (case c2 of
        NonNumeric \<Rightarrow> Inr (False, ColumnNotNumeric col2)
      | Numeric cells2 \<Rightarrow>
          let clean_data = dropna cells1 cells2 in
          if length clean_data < 3 then Inr (False, NotEnoughData (length clean_data))
          else if col1 = col2 then Inl ValueError
          else if fl_eq (pandas_std (map fst clean_data)) (Fin 0)
            then Inr (False, ZeroVariance col1)
          else if fl_eq (pandas_std (map snd clean_data)) (Fin 0)
            then Inr (False, ZeroVariance col2)
          else Inr (True, NoMessage)))))"

record correlation_data =
  corr_column_1 :: string
  corr_column_2 :: string
  corr_sample_size :: int
  corr_r_value :: fl
  corr_p_value :: fl
  corr_original_rows :: nat
  corr_rows_with_missing :: int

text \<open>
  \<open>compute_correlation_from_data\<close>.  \<open>scipy.stats.pearsonr\<close> is the parameter \<open>pearsonr\<close>:
  the coefficient and the p-value, or an exception.  Selecting a column that the frame
  does not have raises \<open>KeyError\<close>, and \<open>pearsonr\<close> on values that are not numbers
  \<open>TypeError\<close>; the callers validate first, so neither happens.
\<close>

definition compute_correlation_from_data ::
  "(real list \<Rightarrow> real list \<Rightarrow> py_error + fl \<times> fl) \<Rightarrow> dataframe \<Rightarrow> string \<Rightarrow> string
   \<Rightarrow> py_error + correlation_data" where
  "compute_correlation_from_data pearsonr df col1 col2 =
     (case (map_of (df_columns df) col1, map_of (df_columns df) col2) of
        (Some (Numeric cells1), Some (Numeric cells2)) \<Rightarrow>
          let clean_data = dropna cells1 cells2;
              x = map fst clean_data;
              y = map snd clean_data
          in py_bind (pearsonr x y) (\<lambda>(r_value, p_value).
             let n = length x
             in Inr \<lparr>corr_column_1 = col1, corr_column_2 = col2, corr_sample_size = int n,
                     corr_r_value = r_value, corr_p_value = p_value,
                     corr_original_rows = df_rows df,
                     corr_rows_with_missing = int (df_rows df) - int n\<rparr>)
      | (None, _) \<Rightarrow> Inl KeyError
      | (_, None) \<Rightarrow> Inl KeyError
      | _ \<Rightarrow> Inl TypeError)"

text \<open>
  The dictionary that both analyses build: the keys of the correlation, the keys of the
  critical value (whose \<open>sample_size\<close> is the later, and equal, entry) and the verdict.
  The sentence \<open>significance_interpretation\<close> of the single analysis is formatting and
  is left out.
\<close>

record correlation_result = critical_value_result +
  column_1 :: string
  column_2 :: string
  r_value :: fl
  p_value :: fl
  original_rows :: nat
  rows_with_missing :: int
  is_significant :: bool

definition merge_results ::
  "correlation_data \<Rightarrow> critical_value_result \<Rightarrow> bool \<Rightarrow> correlation_result" where
  "merge_results corr_results critical_results significant =
     \<lparr>sample_size = sample_size critical_results, alpha = alpha critical_results,
      test_type = test_type critical_results,
      degrees_of_freedom = degrees_of_freedom critical_results,
      t_critical = t_critical critical_results, r_critical = r_critical critical_results,
      column_1 = corr_column_1 corr_results, column_2 = corr_column_2 corr_results,
      r_value = corr_r_value corr_results, p_value = corr_p_value corr_results,
      original_rows = corr_original_rows corr_results,
      rows_with_missing = corr_rows_with_missing corr_results,
      is_significant = significant\<rparr>"

definition analyze_excel_correlation ::
  "(string \<Rightarrow> py_error + dataframe) \<Rightarrow> (real list \<Rightarrow> real list \<Rightarrow> py_error + fl \<times> fl) \<Rightarrow>
   (fl \<Rightarrow> int \<Rightarrow> fl) \<Rightarrow> string \<Rightarrow> string \<Rightarrow> string \<Rightarrow> fl \<Rightarrow> string
   \<Rightarrow> py_error + bool \<times> correlation_result option \<times> message" where
  "analyze_excel_correlation pd_read_excel pearsonr ppf filepath col1 col2 a tt =
     (case read_excel_file pd_read_excel filepath of
        (success, None, error) \<Rightarrow> Inr (False, None, error)
      | (success, Some df, error) \<Rightarrow>
          if \<not> success then Inr (False, None, error)
          else
            py_bind (validate_columns_for_correlation df col1 col2) (\<lambda>(is_valid, error).
            if \<not> is_valid then Inr (False, None, error)
            else
              py_bind (compute_correlation_from_data pearsonr df col1 col2) (\<lambda>corr_results.
              py_bind (compute_pearson_r_critical ppf (corr_sample_size corr_results) a tt)
                (\<lambda>critical_results.
              let significant =
                    fl_gt (fl_abs (corr_r_value corr_results)) (r_critical critical_results)
              in Inr (True, Some (merge_results corr_results critical_results significant),
                      NoMessage)))))"

text \<open>\<open>itertools.combinations(numeric_cols, 2)\<close>.\<close>

fun combinations2 :: "'a list \<Rightarrow> ('a \<times> 'a) list" where
  "combinations2 [] = []"
| "combinations2 (x # xs) = map (Pair x) xs @ combinations2 xs"

text \<open>
  The body of the loop of \<open>get_all_correlation_pairs\<close> for one pair: \<open>Inr None\<close> is the
  \<open>continue\<close> of a pair that is not valid, \<open>Inl\<close> an exception, which the loop catches.
\<close>

definition pair_result ::
  "(real list \<Rightarrow> real list \<Rightarrow> py_error + fl \<times> fl) \<Rightarrow> (fl \<Rightarrow> int \<Rightarrow> fl) \<Rightarrow> dataframe \<Rightarrow>
   fl \<Rightarrow> string \<Rightarrow> string \<Rightarrow> string \<Rightarrow> py_error + correlation_result option" where
  "pair_result pearsonr ppf df a tt col1 col2 =
     py_bind (validate_columns_for_correlation df col1 col2) (\<lambda>(is_valid, error).
     if \<not> is_valid then Inr None
     else
       py_bind (compute_correlation_from_data pearsonr df col1 col2) (\<lambda>corr_results.
       py_bind (compute_pearson_r_critical ppf (corr_sample_size corr_results) a tt)
         (\<lambda>critical_results.
       let significant =
             fl_gt (fl_abs (corr_r_value corr_results)) (r_critical critical_results)
       in Inr (Some (merge_results corr_results critical_results significant)))))"

fun pairs_loop ::
  "(real list \<Rightarrow> real list \<Rightarrow> py_error + fl \<times> fl) \<Rightarrow> (fl \<Rightarrow> int \<Rightarrow> fl) \<Rightarrow> dataframe \<Rightarrow>
   fl \<Rightarrow> string \<Rightarrow> correlation_result list \<Rightarrow> (string \<times> string) list
   \<Rightarrow> correlation_result list" where
  "pairs_loop pearsonr ppf df a tt results [] = results"
| "pairs_loop pearsonr ppf df a tt results ((col1, col2) # pairs) =
     (case pair_result pearsonr ppf df a tt col1 col2 of
        Inl e \<Rightarrow> pairs_loop pearsonr ppf df a tt results pairs
      | Inr None \<Rightarrow> pairs_loop pearsonr ppf df a tt results pairs
      | Inr (Some res) \<Rightarrow> pairs_loop pearsonr ppf df a tt (results @ [res]) pairs)"

definition get_all_correlation_pairs ::
  "(real list \<Rightarrow> real list \<Rightarrow> py_error + fl \<times> fl) \<Rightarrow> (fl \<Rightarrow> int \<Rightarrow> fl) \<Rightarrow> dataframe \<Rightarrow>
   fl \<Rightarrow> string \<Rightarrow> correlation_result list" where
  "get_all_correlation_pairs pearsonr ppf df a tt =
     (let numeric_cols = get_numeric_columns df
      in if length numeric_cols < 2 then []
         else pairs_loop pearsonr ppf df a tt [] (combinations2 numeric_cols))"

text \<open>
  What the loop appends for one pair: the result of its body, or nothing when the pair is
  not valid or the body raised.
\<close>

definition kept :: "(real list \<Rightarrow> real list \<Rightarrow> py_error + fl \<times> fl) \<Rightarrow> (fl \<Rightarrow> int \<Rightarrow> fl) \<Rightarrow> dataframe \<Rightarrow>
   fl \<Rightarrow> string \<Rightarrow> string \<times> string \<Rightarrow> correlation_result option" where
  "kept pearsonr ppf df a tt p =
     (case pair_result pearsonr ppf df a tt (fst p) (snd p) of
        Inl e \<Rightarrow> None | Inr None \<Rightarrow> None | Inr (Some res) \<Rightarrow> Some res)"

section \<open>ANOVA1.py: the report and its post-hoc comparison\<close>

text \<open>
  Of \<open>create_anova_report\<close> the model keeps what decides the values it returns: the
  manual decomposition, the p-value of \<open>scipy.stats.f_oneway\<close> (the parameter
  \<open>f_oneway\<close>), the labels of the descriptive table, and the post-hoc table.  The
  document, its formatting and the file it is saved to are left out.

  The labels for the post-hoc comparison are built as
  \<open>np.array([[age_labels[i]]*len(g) for i,g in enumerate(all_groups)]).flatten()\<close>:
  one row of labels per group.  \<open>np.array\<close> makes a two-dimensional array of rows of one
  length; on rows of different lengths it raises \<open>ValueError\<close> (numpy 1.24 and later).
\<close>

definition tukey_labels :: "string list \<Rightarrow> real list list \<Rightarrow> py_error + string list" where
  "tukey_labels age_labels all_groups =
     (if length age_labels < length all_groups then Inl IndexError
      else
        let rows = map (\<lambda>(i, g). replicate (length g) (age_labels ! i)) (enumerate 0 all_groups)
        in if list_all (\<lambda>row. length row = length (hd rows)) rows then Inr (concat rows)
           else Inl ValueError)"

text \<open>
  The script \<open>post\_hoc.py\<close> builds the labels of its three groups by concatenating lists,
  which works for groups of any sizes.
\<close>

definition post_hoc_labels :: "real list \<Rightarrow> real list \<Rightarrow> real list \<Rightarrow> string list" where
  "post_hoc_labels group1 group2 group3 =
     replicate (length group1) ''G1'' @ replicate (length group2) ''G2'' @
     replicate (length group3) ''G3''"

record 'c anova_report =
  report_anova :: anova_result
  report_p_value :: fl
  report_posthoc_table :: "'c list list option"

text \<open>
  \<open>statsmodels\<close>' \<open>pairwise_tukeyhsd\<close> followed by \<open>summary().data\<close> is the parameter
  \<open>pairwise_tukeyhsd\<close>: from the pooled values and their labels, the rows of the summary
  (a header row first), or an exception.  The descriptive table reads \<open>age_labels[i]\<close> for
  every group, and the post-hoc table reads the first row of the summary.
\<close>

definition create_anova_report ::
  "(real list list \<Rightarrow> py_error + fl \<times> fl) \<Rightarrow>
   (real list \<Rightarrow> string list \<Rightarrow> py_error + 'c list list) \<Rightarrow>
   real list list \<Rightarrow> string list \<Rightarrow> py_error + 'c anova_report" where
  "create_anova_report f_oneway pairwise_tukeyhsd all_groups age_labels =
     py_bind (manual_anova all_groups) (\<lambda>anova.
     py_bind (f_oneway all_groups) (\<lambda>(F_statistic, p_value).
     if length age_labels < length all_groups then Inl IndexError
     else if fl_lt p_value (Fin (5 / 100)) then
       py_bind (tukey_labels age_labels all_groups) (\<lambda>labels.
       py_bind (pairwise_tukeyhsd (concat all_groups) labels) (\<lambda>tukey_data.
       if tukey_data = [] then Inl IndexError
       else Inr \<lparr>report_anova = anova, report_p_value = p_value,
                  report_posthoc_table = Some tukey_data\<rparr>))
     else Inr \<lparr>report_anova = anova, report_p_value = p_value,
                report_posthoc_table = None\<rparr>))"

text \<open>The labels that \<open>get_user_input\<close> passes on.\<close>

definition age_labels :: "string list" where
  "age_labels =
     [''Below 25'', ''25-29'', ''30-34'', ''35-39'', ''40-44'', ''45-49'', ''50-54'', ''55 above'']"

section \<open>Properties\<close>


subsection \<open>Critical values\<close>

lemma fl_sub_Fin [simp]: "fl_sub (Fin a) (Fin b) = Fin (a - b)"
  by (simp add: fl_sub_def)

lemma fl_pow2_Fin [simp]: "fl_pow2 (Fin a) = Fin (a * a)"
  by (simp add: fl_pow2_def)

lemma fl_pow2_special [simp]: "fl_pow2 PInf = PInf" "fl_pow2 NInf = PInf" "fl_pow2 NaN = NaN"
  by (simp_all add: fl_pow2_def)

text \<open>The critical r as a function of the critical t and the degrees of freedom.\<close>

lemma r_from_t:
  assumes "1 \<le> df"
  shows "fl_sqrt (fl_div (fl_pow2 t) (fl_add (fl_pow2 t) (fl_of_int df))) =
         (case t of Fin x \<Rightarrow> Fin (sqrt (x\<^sup>2 / (x\<^sup>2 + real_of_int df))) | _ \<Rightarrow> NaN)"
proof (cases t)
  case (Fin x)
  have "0 \<le> x * x" and "1 \<le> real_of_int df"
    using assms by simp_all
  then have pos: "0 < x * x + real_of_int df"
    by linarith
  then have "0 \<le> x * x / (x * x + real_of_int df)"
    by simp
  with pos Fin show ?thesis
    by (simp add: fl_of_int_def power2_eq_square not_less)
qed (simp_all add: fl_of_int_def)

lemma compute_t_critical_Fin:
  "compute_t_critical ppf (Fin a) df tt =
     ppf (Fin (if tt = ''two-tailed'' then 1 - a / 2 else 1 - a)) df"
  by (simp add: compute_t_critical_def)

text \<open>
  C9. The critical t is the inverse distribution function at mass \<open>1 - alpha/2\<close> for the
  two-tailed mode and at \<open>1 - alpha\<close> for every other mode, with the given degrees of
  freedom.
\<close>

theorem compute_t_critical_mass:
  "compute_t_critical ppf (Fin a) df tt =
     (if tt = ''two-tailed'' then ppf (Fin (1 - a / 2)) df else ppf (Fin (1 - a)) df)"
  by (simp add: compute_t_critical_Fin)



text \<open>The script \<open>pearsonR.py\<close> is the two-tailed computation at \<open>n = 99\<close>, \<open>alpha = 0.05\<close>.\<close>

lemma pearsonR_script:
  "compute_pearson_r_critical ppf 99 (Fin (5 / 100)) ''two-tailed'' =
     Inr \<lparr>sample_size = 99, alpha = Fin (5 / 100), test_type = ''two-tailed'',
          degrees_of_freedom = 97, t_critical = pearsonR_t_crit ppf,
          r_critical = pearsonR_r_crit ppf\<rparr>"
  by (simp add: compute_pearson_r_critical_def compute_degrees_of_freedom_def
      compute_t_critical_def pearsonR_t_crit_def pearsonR_r_crit_def Let_def)

subsection \<open>The ANOVA decomposition\<close>

lemma foldl_fl_add_Fin:
  "foldl fl_add (Fin a) (map (\<lambda>x. Fin (f x)) xs) = Fin (a + sum_list (map f xs))"
  by (induction xs arbitrary: a) (simp_all add: add.assoc)

lemma fl_sum_Fin: "fl_sum (map (\<lambda>x. Fin (f x)) xs) = Fin (sum_list (map f xs))"
  using foldl_fl_add_Fin [of 0 f xs] by (simp add: fl_sum_def)

lemma np_mean_Fin: "xs \<noteq> [] \<Longrightarrow> np_mean xs = Fin (sum_list xs / real (length xs))"
  by (simp add: np_mean_def)

lemma ss_between_loop_foldl:
  "ss_between_loop gm acc gs =
     foldl fl_add acc (map (\<lambda>g. fl_mul (fl_of_int (int (length g))) (fl_pow2 (fl_sub (np_mean g) gm))) gs)"
  by (induction gs arbitrary: acc) simp_all

lemma manual_anova_loop_eq: "manual_anova_loop groups = manual_anova groups"
  by (simp add: manual_anova_loop_def manual_anova_def ss_between_loop_foldl fl_sum_def)

lemma length_concat_ge:
  "\<forall>g\<in>set groups. m \<le> length g \<Longrightarrow> m * length groups \<le> length (concat groups)"
  by (induction groups) (auto simp: algebra_simps)

lemma between_terms_Fin:
  assumes "\<forall>g\<in>set groups. g \<noteq> []"
  shows "map (\<lambda>g. fl_mul (fl_of_int (int (length g))) (fl_pow2 (fl_sub (np_mean g) (Fin m)))) groups =
         map (\<lambda>g. Fin (real (length g) * (sum_list g / real (length g) - m)\<^sup>2)) groups"
  using assms by (induction groups) (simp_all add: np_mean_Fin fl_of_int_def power2_eq_square)

lemma manual_anova_nonempty:
  assumes ne: "groups \<noteq> []" and gne: "\<forall>g\<in>set groups. g \<noteq> []"
  shows "manual_anova groups =
     Inr \<lparr>anova_SS_between = Fin (spec_SS_between groups),
          anova_SS_within = Fin (spec_SS_total groups - spec_SS_between groups),
          anova_SS_total = Fin (spec_SS_total groups),
          anova_df_between = int (length groups) - 1,
          anova_df_within = int (length (concat groups)) - int (length groups),
          anova_MS_between =
            fl_div (Fin (spec_SS_between groups)) (Fin (real (length groups) - 1)),
          anova_MS_within =
            fl_div (Fin (spec_SS_total groups - spec_SS_between groups))
                   (Fin (real (length (concat groups)) - real (length groups))),
          anova_F_calculated =
            fl_div (fl_div (Fin (spec_SS_between groups)) (Fin (real (length groups) - 1)))
                   (fl_div (Fin (spec_SS_total groups - spec_SS_between groups))
                           (Fin (real (length (concat groups)) - real (length groups))))\<rparr>"
proof -
  have cne: "concat groups \<noteq> []"
    using ne gne by (cases groups) auto
  have gm: "np_mean (concat groups) = Fin (spec_grand_mean groups)"
    using cne by (simp add: np_mean_Fin spec_grand_mean_def)
  have sst: "fl_sum (map (\<lambda>x. fl_pow2 (fl_sub (Fin x) (Fin (spec_grand_mean groups)))) (concat groups))
             = Fin (spec_SS_total groups)"
    using fl_sum_Fin [of "\<lambda>x. (x - spec_grand_mean groups)\<^sup>2" "concat groups"]
    by (simp add: spec_SS_total_def power2_eq_square)
  have ssb: "fl_sum (map (\<lambda>g. fl_mul (fl_of_int (int (length g)))
                (fl_pow2 (fl_sub (np_mean g) (Fin (spec_grand_mean groups))))) groups)
             = Fin (spec_SS_between groups)"
    unfolding between_terms_Fin [OF gne]
    using fl_sum_Fin [of "\<lambda>g. real (length g) * (sum_list g / real (length g) - spec_grand_mean groups)\<^sup>2" groups]
    by (simp add: spec_SS_between_def)
  have dfb: "fl_of_int (int (length groups) - 1) = Fin (real (length groups) - 1)"
    by (simp add: fl_of_int_def)
  have dfw: "fl_of_int (int (length (concat groups)) - int (length groups)) =
             Fin (real (length (concat groups)) - real (length groups))"
    by (simp add: fl_of_int_def)
  show ?thesis
    unfolding manual_anova_def Let_def gm sst ssb dfb dfw
    using ne by (simp only: if_False fl_sub_Fin)
qed

lemma manual_anova_value:
  assumes "2 \<le> length groups" and "\<forall>g\<in>set groups. 2 \<le> length g"
  shows "manual_anova groups =
     Inr \<lparr>anova_SS_between = Fin (spec_SS_between groups),
          anova_SS_within = Fin (spec_SS_total groups - spec_SS_between groups),
          anova_SS_total = Fin (spec_SS_total groups),
          anova_df_between = int (length groups) - 1,
          anova_df_within = int (length (concat groups)) - int (length groups),
          anova_MS_between = Fin (spec_MS_between groups),
          anova_MS_within = Fin (spec_MS_within groups),
          anova_F_calculated = fl_div (Fin (spec_MS_between groups)) (Fin (spec_MS_within groups))\<rparr>"
proof -
  have ne: "groups \<noteq> []" using assms(1) by auto
  have gne: "\<forall>g\<in>set groups. g \<noteq> []" using assms(2) by auto
  have len: "2 * length groups \<le> length (concat groups)"
    using length_concat_ge [of groups 2] assms(2) by simp
  have k1: "real (length groups) - 1 \<noteq> 0" using assms(1) by simp
  have nk: "real (length (concat groups)) - real (length groups) \<noteq> 0"
    using len assms(1) by (simp add: of_nat_diff)
  show ?thesis
    unfolding manual_anova_nonempty [OF ne gne]
    using k1 nk by (simp add: spec_MS_between_def spec_MS_within_def)
qed

lemma spec_SS_between_nonneg: "0 \<le> spec_SS_between groups"
  unfolding spec_SS_between_def by (rule sum_list_nonneg) auto

lemma spec_MS_between_nonneg: "2 \<le> length groups \<Longrightarrow> 0 \<le> spec_MS_between groups"
  unfolding spec_MS_between_def using spec_SS_between_nonneg [of groups] by simp

lemma F_cases:
  assumes "2 \<le> length groups"
  shows "fl_div (Fin (spec_MS_between groups)) (Fin (spec_MS_within groups)) =
         (if spec_MS_within groups = 0
          then (if spec_MS_between groups = 0 then NaN else PInf)
          else Fin (spec_MS_between groups / spec_MS_within groups))"
  using spec_MS_between_nonneg [OF assms] by simp

lemma foldl_fl_add_NaN: "foldl fl_add NaN xs = NaN"
  by (induction xs) simp_all

lemma fl_add_NaN_right [simp]: "fl_add x NaN = NaN"
  by (cases x) simp_all

lemma foldl_fl_add_has_NaN: "NaN \<in> set xs \<Longrightarrow> foldl fl_add acc xs = NaN"
  by (induction xs arbitrary: acc) (auto simp: foldl_fl_add_NaN)

lemma fl_div_NaN_right [simp]: "fl_div x NaN = NaN"
  by (cases x) simp_all

lemma empty_group_term:
  "fl_mul (fl_of_int (int (length ([]::real list)))) (fl_pow2 (fl_sub (np_mean []) gm)) = NaN"
  by (simp add: np_mean_def fl_sub_def fl_pow2_def fl_of_int_def)

lemma manual_anova_empty_group:
  assumes "groups \<noteq> []" and "[] \<in> set groups"
  shows "\<exists>r. manual_anova groups = Inr r \<and> anova_F_calculated r = NaN"
proof -
  have "NaN \<in> set (map (\<lambda>g. fl_mul (fl_of_int (int (length g)))
                (fl_pow2 (fl_sub (np_mean g) (np_mean (concat groups))))) groups)"
    using assms(2) empty_group_term [of "np_mean (concat groups)"] by force
  then have "fl_sum (map (\<lambda>g. fl_mul (fl_of_int (int (length g)))
                (fl_pow2 (fl_sub (np_mean g) (np_mean (concat groups))))) groups) = NaN"
    unfolding fl_sum_def by (rule foldl_fl_add_has_NaN)
  then show ?thesis
    using assms(1) by (simp add: manual_anova_def Let_def)
qed

lemma singletons_of_short:
  "\<forall>g\<in>set gs. g \<noteq> [] \<Longrightarrow> length (concat gs) \<le> length gs \<Longrightarrow> \<forall>g\<in>set gs. length g = 1"
proof (induction gs)
  case Nil
  then show ?case by simp
next
  case (Cons g gs)
  have "1 * length gs \<le> length (concat gs)"
    by (rule length_concat_ge) (use Cons.prems(1) in \<open>auto simp: Suc_le_eq\<close>)
  moreover have "1 \<le> length g"
    using Cons.prems(1) by (cases g) auto
  ultimately have "length g = 1" and "length (concat gs) \<le> length gs"
    using Cons.prems(2) by auto
  with Cons show ?case by auto
qed

lemma singletons_between_total:
  "\<forall>g\<in>set gs. length g = 1 \<Longrightarrow>
   (\<Sum>g\<leftarrow>gs. real (length g) * (sum_list g / real (length g) - m)\<^sup>2) = (\<Sum>x\<leftarrow>concat gs. (x - m)\<^sup>2)"
proof (induction gs)
  case Nil
  then show ?case by simp
next
  case (Cons g gs)
  then obtain x where "g = [x]"
    by (cases g) auto
  with Cons show ?case by simp
qed

lemma singletons_length: "\<forall>g\<in>set gs. length g = 1 \<Longrightarrow> length (concat gs) = length gs"
  by (induction gs) auto

lemma manual_anova_short:
  assumes ne: "groups \<noteq> []" and short: "length (concat groups) \<le> length groups"
  shows "\<exists>r. manual_anova groups = Inr r \<and> anova_F_calculated r = NaN"
proof (cases "[] \<in> set groups")
  case True
  with ne show ?thesis by (rule manual_anova_empty_group)
next
  case False
  then have gne: "\<forall>g\<in>set groups. g \<noteq> []" by auto
  have one: "\<forall>g\<in>set groups. length g = 1"
    using gne short by (rule singletons_of_short)
  have "spec_SS_between groups = spec_SS_total groups"
    unfolding spec_SS_between_def spec_SS_total_def using one by (rule singletons_between_total)
  moreover have "length (concat groups) = length groups"
    using one by (rule singletons_length)
  ultimately show ?thesis
    unfolding manual_anova_nonempty [OF ne gne] by simp
qed






subsection \<open>Validation\<close>



subsection \<open>Welch's degrees of freedom\<close>

lemma py_bind_fdiv:
  "py_bind (py_fdiv a b) f = (if b = 0 then Inl ZeroDivisionError else f (a / b))"
  by (simp add: py_bind_def py_fdiv_def)

lemma welch_denominator_zero:
  assumes "2 \<le> n1" and "2 \<le> n2"
  shows "(v1 / real n1)\<^sup>2 / (real n1 - 1) + (v2 / real n2)\<^sup>2 / (real n2 - 1) = 0
         \<longleftrightarrow> v1 = 0 \<and> v2 = 0"
proof -
  have p1: "0 < real n1 - 1" and p2: "0 < real n2 - 1" and q1: "real n1 \<noteq> 0" and q2: "real n2 \<noteq> 0"
    using assms by simp_all
  have a: "0 \<le> (v1 / real n1)\<^sup>2 / (real n1 - 1)" and b: "0 \<le> (v2 / real n2)\<^sup>2 / (real n2 - 1)"
    using p1 p2 by simp_all
  have "(v1 / real n1)\<^sup>2 / (real n1 - 1) + (v2 / real n2)\<^sup>2 / (real n2 - 1) = 0
        \<longleftrightarrow> (v1 / real n1)\<^sup>2 / (real n1 - 1) = 0 \<and> (v2 / real n2)\<^sup>2 / (real n2 - 1) = 0"
    using a b by (rule add_nonneg_eq_0_iff)
  also have "\<dots> \<longleftrightarrow> v1 = 0 \<and> v2 = 0"
    using p1 p2 q1 q2 by simp
  finally show ?thesis .
qed

lemma welch_statistics_value:
  assumes "2 \<le> length g1" and "2 \<le> length g2"
  shows "welch_statistics ttest_ind g1 g2 =
     (if spec_variance g1 = 0 \<and> spec_variance g2 = 0 then Inl ZeroDivisionError
      else Inr \<lparr>welch_mean1 = sum_list g1 / real (length g1),
                welch_mean2 = sum_list g2 / real (length g2),
                welch_n1 = length g1, welch_n2 = length g2,
                welch_t_statistic = fst (ttest_ind g1 g2),
                welch_df = spec_welch_df (spec_variance g1) (length g1) (spec_variance g2) (length g2),
                welch_p_value = snd (ttest_ind g1 g2),
                welch_conclusion =
                  (if fl_le (snd (ttest_ind g1 g2)) (Fin (5 / 100))
                   then ''There is a significant difference between the two groups.''
                   else ''There is no significant difference between the two groups.'')\<rparr>)"
proof -
  have n: "real (length g1) \<noteq> 0" "real (length g2) \<noteq> 0"
          "real (length g1) - 1 \<noteq> 0" "real (length g2) - 1 \<noteq> 0"
    using assms by auto
  have z: "(spec_variance g1 / real (length g1))\<^sup>2 / (real (length g1) - 1) +
           (spec_variance g2 / real (length g2))\<^sup>2 / (real (length g2) - 1) = 0
           \<longleftrightarrow> spec_variance g1 = 0 \<and> spec_variance g2 = 0"
    using assms by (rule welch_denominator_zero)
  obtain t p where tp: "ttest_ind g1 g2 = (t, p)"
    by (cases "ttest_ind g1 g2")
  show ?thesis
    unfolding welch_statistics_def Let_def py_bind_fdiv tp
    using n z by (simp add: spec_variance_def [symmetric] spec_welch_df_def)
qed




subsection \<open>Correlation of columns\<close>

lemma pairs_loop_map_filter:
  "pairs_loop pearsonr ppf df a tt results ps =
     results @ List.map_filter (kept pearsonr ppf df a tt) ps"
  by (induction ps arbitrary: results)
     (auto simp: List.map_filter_simps kept_def split: sum.splits option.splits)

lemma get_all_correlation_pairs_map_filter:
  "get_all_correlation_pairs pearsonr ppf df a tt =
     List.map_filter (kept pearsonr ppf df a tt) (combinations2 (get_numeric_columns df))"
proof (cases "length (get_numeric_columns df) < 2")
  case True
  then have "combinations2 (get_numeric_columns df) = []"
    by (cases "get_numeric_columns df" rule: combinations2.cases) (auto simp: Suc_less_eq)
  with True show ?thesis
    by (simp add: get_all_correlation_pairs_def List.map_filter_simps)
next
  case False
  then show ?thesis
    by (simp add: get_all_correlation_pairs_def pairs_loop_map_filter)
qed

lemma validate_True_NoMessage:
  "validate_columns_for_correlation df c1 c2 = Inr (True, m) \<Longrightarrow> m = NoMessage"
  by (auto simp: validate_columns_for_correlation_def Let_def
      split: option.splits column.splits if_splits)

lemma pair_result_Some:
  assumes "pair_result pearsonr ppf df a tt c1 c2 = Inr (Some res)"
  shows "validate_columns_for_correlation df c1 c2 = Inr (True, NoMessage)"
    and "\<not> isl (compute_correlation_from_data pearsonr df c1 c2)"
    and "column_1 res = c1" and "column_2 res = c2"
    and "is_significant res = fl_gt (fl_abs (r_value res)) (r_critical res)"
    and "compute_pearson_r_critical ppf (sample_size res) a tt =
           Inr (critical_value_result.truncate res)"
proof -
  obtain v m where v: "validate_columns_for_correlation df c1 c2 = Inr (v, m)"
    using assms by (cases "validate_columns_for_correlation df c1 c2")
      (auto simp: pair_result_def py_bind_def)
  with assms have "v" by (auto simp: pair_result_def py_bind_def split: if_splits)
  with v show "validate_columns_for_correlation df c1 c2 = Inr (True, NoMessage)"
    using validate_True_NoMessage by auto
  then have val: "validate_columns_for_correlation df c1 c2 = Inr (True, NoMessage)" .
  obtain corr where corr: "compute_correlation_from_data pearsonr df c1 c2 = Inr corr"
    using assms val by (cases "compute_correlation_from_data pearsonr df c1 c2")
      (auto simp: pair_result_def py_bind_def)
  then show "\<not> isl (compute_correlation_from_data pearsonr df c1 c2)" by simp
  have cols: "corr_column_1 corr = c1" "corr_column_2 corr = c2"
    using corr by (auto simp: compute_correlation_from_data_def py_bind_def Let_def
        split: option.splits column.splits sum.splits prod.splits)
  obtain crit where crit: "compute_pearson_r_critical ppf (corr_sample_size corr) a tt = Inr crit"
    by (simp add: compute_pearson_r_critical_def Let_def)
  have res: "res = merge_results corr crit (fl_gt (fl_abs (corr_r_value corr)) (r_critical crit))"
    using assms val corr crit by (simp add: pair_result_def py_bind_def Let_def)
  show "column_1 res = c1" "column_2 res = c2"
    using cols by (simp_all add: res merge_results_def)
  show "is_significant res = fl_gt (fl_abs (r_value res)) (r_critical res)"
    by (simp add: res merge_results_def)
  have ss: "sample_size crit = corr_sample_size corr"
    using crit by (auto simp: compute_pearson_r_critical_def Let_def)
  have "critical_value_result.truncate res = crit"
    by (simp add: res merge_results_def critical_value_result.truncate_def)
  moreover have "sample_size res = corr_sample_size corr"
    using ss by (simp add: res merge_results_def)
  ultimately show "compute_pearson_r_critical ppf (sample_size res) a tt =
           Inr (critical_value_result.truncate res)"
    using crit by simp
qed

lemma pair_result_Some_iff:
  "(\<exists>res. pair_result pearsonr ppf df a tt c1 c2 = Inr (Some res)) \<longleftrightarrow>
   validate_columns_for_correlation df c1 c2 = Inr (True, NoMessage) \<and>
   \<not> isl (compute_correlation_from_data pearsonr df c1 c2)"
proof
  assume "\<exists>res. pair_result pearsonr ppf df a tt c1 c2 = Inr (Some res)"
  then show "validate_columns_for_correlation df c1 c2 = Inr (True, NoMessage) \<and>
   \<not> isl (compute_correlation_from_data pearsonr df c1 c2)"
    using pair_result_Some(1,2) by blast
next
  assume h: "validate_columns_for_correlation df c1 c2 = Inr (True, NoMessage) \<and>
   \<not> isl (compute_correlation_from_data pearsonr df c1 c2)"
  then obtain corr where "compute_correlation_from_data pearsonr df c1 c2 = Inr corr"
    by (cases "compute_correlation_from_data pearsonr df c1 c2") auto
  with h show "\<exists>res. pair_result pearsonr ppf df a tt c1 c2 = Inr (Some res)"
    by (simp add: pair_result_def py_bind_def compute_pearson_r_critical_def Let_def)
qed

lemma kept_Some:
  "kept pearsonr ppf df a tt p = Some res \<longleftrightarrow>
   pair_result pearsonr ppf df a tt (fst p) (snd p) = Inr (Some res)"
  by (auto simp: kept_def split: sum.splits option.splits)

lemma output_pairs:
  "map (\<lambda>res. (column_1 res, column_2 res)) (List.map_filter (kept pearsonr ppf df a tt) ps) =
   filter (\<lambda>(col1, col2).
       validate_columns_for_correlation df col1 col2 = Inr (True, NoMessage) \<and>
       \<not> isl (compute_correlation_from_data pearsonr df col1 col2)) ps"
proof (induction ps)
  case Nil
  then show ?case by (simp add: List.map_filter_simps)
next
  case (Cons p ps)
  obtain c1 c2 where p: "p = (c1, c2)" by (cases p)
  show ?case
  proof (cases "kept pearsonr ppf df a tt p")
    case None
    then have "\<not> (\<exists>res. pair_result pearsonr ppf df a tt c1 c2 = Inr (Some res))"
      using kept_Some [of pearsonr ppf df a tt p] p by auto
    then have "\<not> (validate_columns_for_correlation df c1 c2 = Inr (True, NoMessage) \<and>
       \<not> isl (compute_correlation_from_data pearsonr df c1 c2))"
      using pair_result_Some_iff [of pearsonr ppf df a tt c1 c2] by blast
    with None Cons p show ?thesis
      by (simp add: List.map_filter_simps)
  next
    case (Some res)
    then have pr: "pair_result pearsonr ppf df a tt c1 c2 = Inr (Some res)"
      using kept_Some [of pearsonr ppf df a tt p res] p by simp
    then have "validate_columns_for_correlation df c1 c2 = Inr (True, NoMessage) \<and>
       \<not> isl (compute_correlation_from_data pearsonr df c1 c2)"
      using pair_result_Some_iff [of pearsonr ppf df a tt c1 c2] by blast
    moreover have "column_1 res = c1" "column_2 res = c2"
      using pair_result_Some(3,4) [OF pr] by simp_all
    ultimately show ?thesis
      using Some Cons p by (simp add: List.map_filter_simps)
  qed
qed

lemma dropna_cells:
  "p \<in> set (dropna xs ys) \<Longrightarrow> Some (fst p) \<in> set xs \<and> Some (snd p) \<in> set ys"
  by (induction xs ys rule: dropna.induct) auto

lemma sum_list_constant: "\<forall>x\<in>set xs. x = v \<Longrightarrow> sum_list xs = real (length xs) * v"
  by (induction xs) (auto simp: algebra_simps)

lemma sum_list_zero_terms: "\<forall>x\<in>set xs. f x = (0::real) \<Longrightarrow> (\<Sum>x\<leftarrow>xs. f x) = 0"
  by (induction xs) auto

lemma pandas_std_constant:
  assumes "\<forall>x\<in>set xs. x = v" and "2 \<le> length xs"
  shows "pandas_std xs = Fin 0"
proof -
  have "xs \<noteq> []"
    using assms(2) by auto
  then have "sum_list xs / real (length xs) = v"
    using assms(1) by (simp add: sum_list_constant)
  then have "(\<Sum>x\<leftarrow>xs. (x - sum_list xs / real (length xs))\<^sup>2) = 0"
    using assms(1) by (intro sum_list_zero_terms) simp
  then show ?thesis
    using assms(2) by (simp add: pandas_std_def)
qed

lemma validate_constant_first:
  assumes "map_of (df_columns df) c = Some (Numeric cells)"
      and "\<forall>x\<in>set cells. x = None \<or> x = Some v"
  shows "validate_columns_for_correlation df c c2 \<noteq> Inr (True, NoMessage)"
proof (cases "map_of (df_columns df) c2")
  case None
  with assms(1) show ?thesis by (simp add: validate_columns_for_correlation_def)
next
  case (Some col)
  show ?thesis
  proof (cases col)
    case NonNumeric
    with Some assms(1) show ?thesis by (simp add: validate_columns_for_correlation_def)
  next
    case (Numeric cells2)
    have "\<forall>x\<in>set (map fst (dropna cells cells2)). x = v"
      using dropna_cells [of _ cells cells2] assms(2) by fastforce
    then have "3 \<le> length (dropna cells cells2) \<Longrightarrow> pandas_std (map fst (dropna cells cells2)) = Fin 0"
      using pandas_std_constant [of "map fst (dropna cells cells2)" v] by simp
    with Some Numeric assms(1) show ?thesis
      by (auto simp: validate_columns_for_correlation_def Let_def not_less)
  qed
qed

lemma validate_constant_second:
  assumes "map_of (df_columns df) c = Some (Numeric cells)"
      and "\<forall>x\<in>set cells. x = None \<or> x = Some v"
  shows "validate_columns_for_correlation df c1 c \<noteq> Inr (True, NoMessage)"
proof (cases "map_of (df_columns df) c1")
  case None
  then show ?thesis by (simp add: validate_columns_for_correlation_def)
next
  case (Some col)
  show ?thesis
  proof (cases col)
    case NonNumeric
    with Some assms(1) show ?thesis by (simp add: validate_columns_for_correlation_def)
  next
    case (Numeric cells1)
    have "\<forall>x\<in>set (map snd (dropna cells1 cells)). x = v"
      using dropna_cells [of _ cells1 cells] assms(2) by fastforce
    then have "3 \<le> length (dropna cells1 cells) \<Longrightarrow> pandas_std (map snd (dropna cells1 cells)) = Fin 0"
      using pandas_std_constant [of "map snd (dropna cells1 cells)" v] by simp
    with Some Numeric assms(1) show ?thesis
      by (auto simp: validate_columns_for_correlation_def Let_def not_less)
  qed
qed

lemma in_map_filter: "res \<in> set (List.map_filter f ps) \<Longrightarrow> \<exists>p\<in>set ps. f p = Some res"
  by (auto simp: List.map_filter_def)

lemma output_result:
  assumes "res \<in> set (get_all_correlation_pairs pearsonr ppf df a tt)"
  shows "\<exists>c1 c2. pair_result pearsonr ppf df a tt c1 c2 = Inr (Some res)"
  using in_map_filter [OF assms [unfolded get_all_correlation_pairs_map_filter]] kept_Some
  by blast

lemma analyze_result:
  assumes "analyze_excel_correlation pd_read_excel pearsonr ppf filepath col1 col2 a tt =
             Inr (s, Some res, m)"
  shows "\<exists>df. pair_result pearsonr ppf df a tt col1 col2 = Inr (Some res)"
proof -
  obtain df where "read_excel_file pd_read_excel filepath = (True, Some df, NoMessage)"
    using assms by (auto simp: analyze_excel_correlation_def read_excel_file_def
        split: sum.splits if_splits)
  with assms have "pair_result pearsonr ppf df a tt col1 col2 = Inr (Some res)"
    by (auto simp: analyze_excel_correlation_def pair_result_def py_bind_def Let_def
        split: sum.splits if_splits prod.splits)
  then show ?thesis ..
qed

text \<open>
  C5. Every result of the all-pairs analysis and every result of the single-pair analysis
  is flagged significant exactly when the absolute value of its r is greater than its
  critical r, and its critical-value entries are those that the critical-value computation
  returns for its sample size, the given alpha and the given tail mode.
\<close>

theorem correlation_significance_invariant:
  "(\<forall>res\<in>set (get_all_correlation_pairs pearsonr ppf df a tt).
      is_significant res = fl_gt (fl_abs (r_value res)) (r_critical res) \<and>
      compute_pearson_r_critical ppf (sample_size res) a tt =
        Inr (critical_value_result.truncate res)) \<and>
   (\<forall>s res m.
      analyze_excel_correlation pd_read_excel pearsonr ppf filepath col1 col2 a tt =
        Inr (s, Some res, m) \<longrightarrow>
      is_significant res = fl_gt (fl_abs (r_value res)) (r_critical res) \<and>
      compute_pearson_r_critical ppf (sample_size res) a tt =
        Inr (critical_value_result.truncate res))"
proof (intro conjI ballI allI impI)
  fix res
  assume "res \<in> set (get_all_correlation_pairs pearsonr ppf df a tt)"
  then obtain c1 c2 where "pair_result pearsonr ppf df a tt c1 c2 = Inr (Some res)"
    using output_result by blast
  then show "is_significant res = fl_gt (fl_abs (r_value res)) (r_critical res)"
    and "compute_pearson_r_critical ppf (sample_size res) a tt =
        Inr (critical_value_result.truncate res)"
    by (rule pair_result_Some(5), rule pair_result_Some(6))
next
  fix s res m
  assume "analyze_excel_correlation pd_read_excel pearsonr ppf filepath col1 col2 a tt =
        Inr (s, Some res, m)"
  then obtain df' where "pair_result pearsonr ppf df' a tt col1 col2 = Inr (Some res)"
    using analyze_result by blast
  then show "is_significant res = fl_gt (fl_abs (r_value res)) (r_critical res)"
    and "compute_pearson_r_critical ppf (sample_size res) a tt =
        Inr (critical_value_result.truncate res)"
    by (rule pair_result_Some(5), rule pair_result_Some(6))
qed


lemma sqrt_16_25: "sqrt (16 / 25) = 4 / 5"
  by (rule real_sqrt_unique) (simp_all add: power2_eq_square)

lemma example_frame_pairs:
  "get_all_correlation_pairs (\<lambda>xs ys. Inr (Fin (1 / 2), Fin (2 / 3))) (\<lambda>q d. Fin (4 / 3))
     \<lparr>df_rows = 3,
      df_columns = [(''x'', Numeric [Some 1, Some 2, Some 3]),
                    (''y'', Numeric [Some 2, Some 4, Some 3]),
                    (''z'', Numeric [Some 5, Some 5, Some 5])]\<rparr>
     (Fin (1 / 20)) ''two-tailed'' =
   [\<lparr>sample_size = 3, alpha = Fin (1 / 20), test_type = ''two-tailed'',
     degrees_of_freedom = 1, t_critical = Fin (4 / 3), r_critical = Fin (4 / 5),
     column_1 = ''x'', column_2 = ''y'', r_value = Fin (1 / 2), p_value = Fin (2 / 3),
     original_rows = 3, rows_with_missing = 0,
     is_significant = False\<rparr>]"
  by (simp add: get_all_correlation_pairs_def get_numeric_columns_def pair_result_def
      validate_columns_for_correlation_def compute_correlation_from_data_def py_bind_def
      pandas_std_def merge_results_def compute_pearson_r_critical_def
      compute_degrees_of_freedom_def compute_t_critical_def fl_of_int_def fl_gt_def
      Let_def power2_eq_square sqrt_16_25)

lemma example_frame_analysis:
  "analyze_excel_correlation
     (\<lambda>f. Inr \<lparr>df_rows = 3,
      df_columns = [(''x'', Numeric [Some 1, Some 2, Some 3]),
                    (''y'', Numeric [Some 2, Some 4, Some 3]),
                    (''z'', Numeric [Some 5, Some 5, Some 5])]\<rparr>)
     (\<lambda>xs ys. Inr (Fin (1 / 2), Fin (2 / 3))) (\<lambda>q d. Fin (4 / 3))
     ''data.xlsx'' ''x'' ''y'' (Fin (1 / 20)) ''two-tailed'' =
   Inr (True,
     Some \<lparr>sample_size = 3, alpha = Fin (1 / 20), test_type = ''two-tailed'',
       degrees_of_freedom = 1, t_critical = Fin (4 / 3), r_critical = Fin (4 / 5),
       column_1 = ''x'', column_2 = ''y'', r_value = Fin (1 / 2), p_value = Fin (2 / 3),
       original_rows = 3, rows_with_missing = 0,
       is_significant = False\<rparr>,
     NoMessage)"
  by (simp add: analyze_excel_correlation_def read_excel_file_def df_empty_def
      validate_columns_for_correlation_def compute_correlation_from_data_def py_bind_def
      pandas_std_def merge_results_def compute_pearson_r_critical_def
      compute_degrees_of_freedom_def compute_t_critical_def fl_of_int_def fl_gt_def
      Let_def power2_eq_square sqrt_16_25)

theorem correlation_significance_invariant_witness:
  "list_all (\<lambda>res. is_significant res = fl_gt (fl_abs (r_value res)) (r_critical res))
     (get_all_correlation_pairs (\<lambda>xs ys. Inr (Fin (1 / 2), Fin (2 / 3))) (\<lambda>q d. Fin (4 / 3))
        \<lparr>df_rows = 3,
      df_columns = [(''x'', Numeric [Some 1, Some 2, Some 3]),
                    (''y'', Numeric [Some 2, Some 4, Some 3]),
                    (''z'', Numeric [Some 5, Some 5, Some 5])]\<rparr> (Fin (1 / 20)) ''two-tailed'') \<and>
   length
     (get_all_correlation_pairs (\<lambda>xs ys. Inr (Fin (1 / 2), Fin (2 / 3))) (\<lambda>q d. Fin (4 / 3))
        \<lparr>df_rows = 3,
      df_columns = [(''x'', Numeric [Some 1, Some 2, Some 3]),
                    (''y'', Numeric [Some 2, Some 4, Some 3]),
                    (''z'', Numeric [Some 5, Some 5, Some 5])]\<rparr> (Fin (1 / 20)) ''two-tailed'') = 1 \<and>
   (case analyze_excel_correlation (\<lambda>f. Inr \<lparr>df_rows = 3,
      df_columns = [(''x'', Numeric [Some 1, Some 2, Some 3]),
                    (''y'', Numeric [Some 2, Some 4, Some 3]),
                    (''z'', Numeric [Some 5, Some 5, Some 5])]\<rparr>)
           (\<lambda>xs ys. Inr (Fin (1 / 2), Fin (2 / 3))) (\<lambda>q d. Fin (4 / 3))
           ''data.xlsx'' ''x'' ''y'' (Fin (1 / 20)) ''two-tailed'' of
      Inl e \<Rightarrow> False
    | Inr (s, None, m) \<Rightarrow> False
    | Inr (s, Some res, m) \<Rightarrow>
        is_significant res = fl_gt (fl_abs (r_value res)) (r_critical res) \<and>
        \<not> is_significant res)"
proof -
  note inv = correlation_significance_invariant
    [of "\<lambda>xs ys. Inr (Fin (1 / 2), Fin (2 / 3))" "\<lambda>q d. Fin (4 / 3)"
        "\<lparr>df_rows = 3,
      df_columns = [(''x'', Numeric [Some 1, Some 2, Some 3]),
                    (''y'', Numeric [Some 2, Some 4, Some 3]),
                    (''z'', Numeric [Some 5, Some 5, Some 5])]\<rparr>" "Fin (1 / 20)" "''two-tailed''"
        "\<lambda>f. Inr \<lparr>df_rows = 3,
      df_columns = [(''x'', Numeric [Some 1, Some 2, Some 3]),
                    (''y'', Numeric [Some 2, Some 4, Some 3]),
                    (''z'', Numeric [Some 5, Some 5, Some 5])]\<rparr>" "''data.xlsx''" "''x''" "''y''"]
  from inv have "list_all (\<lambda>res. is_significant res = fl_gt (fl_abs (r_value res)) (r_critical res))
     (get_all_correlation_pairs (\<lambda>xs ys. Inr (Fin (1 / 2), Fin (2 / 3))) (\<lambda>q d. Fin (4 / 3))
        \<lparr>df_rows = 3,
      df_columns = [(''x'', Numeric [Some 1, Some 2, Some 3]),
                    (''y'', Numeric [Some 2, Some 4, Some 3]),
                    (''z'', Numeric [Some 5, Some 5, Some 5])]\<rparr> (Fin (1 / 20)) ''two-tailed'')"
    unfolding list_all_iff by blast
  moreover from inv have "case analyze_excel_correlation (\<lambda>f. Inr \<lparr>df_rows = 3,
      df_columns = [(''x'', Numeric [Some 1, Some 2, Some 3]),
                    (''y'', Numeric [Some 2, Some 4, Some 3]),
                    (''z'', Numeric [Some 5, Some 5, Some 5])]\<rparr>)
           (\<lambda>xs ys. Inr (Fin (1 / 2), Fin (2 / 3))) (\<lambda>q d. Fin (4 / 3))
           ''data.xlsx'' ''x'' ''y'' (Fin (1 / 20)) ''two-tailed'' of
      Inl e \<Rightarrow> False
    | Inr (s, None, m) \<Rightarrow> False
    | Inr (s, Some res, m) \<Rightarrow>
        is_significant res = fl_gt (fl_abs (r_value res)) (r_critical res) \<and>
        \<not> is_significant res"
    by (simp add: example_frame_analysis fl_gt_def)
  ultimately show ?thesis
    by (simp add: example_frame_pairs)
qed


subsection \<open>The post-hoc comparison of the report\<close>

text \<open>
  The gate of the post-hoc table: a report carries the table exactly when its p-value is
  below 0.05, and for groups of one size the table is the summary of the comparison on
  one label per observation.
\<close>

lemma create_anova_report_not_significant:
  assumes "manual_anova all_groups = Inr anova"
      and "f_oneway all_groups = Inr (F_statistic, p)"
      and "length all_groups \<le> length labels"
      and "\<not> fl_lt p (Fin (5 / 100))"
  shows "create_anova_report f_oneway pairwise_tukeyhsd all_groups labels =
           Inr \<lparr>report_anova = anova, report_p_value = p, report_posthoc_table = None\<rparr>"
  using assms by (simp add: create_anova_report_def py_bind_def)

lemma create_anova_report_table:
  assumes "create_anova_report f_oneway pairwise_tukeyhsd all_groups labels = Inr report"
  shows "(report_posthoc_table report \<noteq> None) = fl_lt (report_p_value report) (Fin (5 / 100))"
  using assms
  by (auto simp: create_anova_report_def py_bind_def split: sum.splits if_splits prod.splits)

lemma tukey_labels_equal_sizes:
  assumes "length all_groups \<le> length labels" and "\<forall>g\<in>set all_groups. length g = n"
  shows "tukey_labels labels all_groups =
           Inr (concat (map (\<lambda>(l, g). replicate (length g) l) (zip labels all_groups)))"
proof -
  have rows: "map (\<lambda>(i, g). replicate (length g) (labels ! i)) (enumerate 0 all_groups) =
              map (\<lambda>(l, g). replicate (length g) l) (zip labels all_groups)"
    using assms(1)
    by (intro nth_equalityI) (simp_all add: nth_enumerate_eq)
  have "list_all (\<lambda>row. length row = n) (map (\<lambda>(l, g). replicate (length g) l) (zip labels all_groups))"
    using assms(2) by (auto simp: list_all_iff dest: set_zip_rightD)
  then have "list_all (\<lambda>row. length row =
        length (hd (map (\<lambda>(l, g). replicate (length g) l) (zip labels all_groups))))
      (map (\<lambda>(l, g). replicate (length g) l) (zip labels all_groups))"
    by (cases "map (\<lambda>(l, g). replicate (length g) l) (zip labels all_groups)")
       (auto simp: list_all_iff)
  then show ?thesis
    using assms(1) unfolding tukey_labels_def Let_def rows by simp
qed

lemma create_anova_report_significant:
  assumes "manual_anova all_groups = Inr anova"
      and "f_oneway all_groups = Inr (F_statistic, p)"
      and "length all_groups \<le> length labels"
      and "fl_lt p (Fin (5 / 100))"
      and "\<forall>g\<in>set all_groups. length g = n"
      and "pairwise_tukeyhsd (concat all_groups)
             (concat (map (\<lambda>(l, g). replicate (length g) l) (zip labels all_groups))) =
           Inr tukey_data"
      and "tukey_data \<noteq> []"
  shows "create_anova_report f_oneway pairwise_tukeyhsd all_groups labels =
           Inr \<lparr>report_anova = anova, report_p_value = p,
                report_posthoc_table = Some tukey_data\<rparr>"
  using assms(1-4,6,7) tukey_labels_equal_sizes [OF assms(3,5)]
  by (simp add: create_anova_report_def py_bind_def)

text \<open>
  C6 does not hold for groups of different sizes: for three groups of 2, 3 and 3
  observations the report has no post-hoc table whatever the p-value is.  When the
  p-value is below 0.05 building the labels raises \<open>ValueError\<close> and no report is produced;
  otherwise the report is produced without the table.
\<close>

theorem create_anova_report_unequal_sizes:
  "create_anova_report f_oneway pairwise_tukeyhsd [[1, 2], [1, 2, 3], [10, 11, 12]] age_labels =
     py_bind (manual_anova [[1, 2], [1, 2, 3], [10, 11, 12]]) (\<lambda>anova.
     py_bind (f_oneway [[1, 2], [1, 2, 3], [10, 11, 12]]) (\<lambda>(F_statistic, p_value).
       if fl_lt p_value (Fin (5 / 100)) then Inl ValueError
       else Inr \<lparr>report_anova = anova, report_p_value = p_value,
                  report_posthoc_table = None\<rparr>))"
proof -
  have "tukey_labels age_labels [[1, 2], [1, 2, 3], [10, 11, 12]] = Inl ValueError"
    by (simp add: tukey_labels_def age_labels_def enumerate_eq_zip upt_rec Let_def)
  then show ?thesis
    by (auto simp: create_anova_report_def py_bind_def age_labels_def
        split: sum.splits prod.splits)
qed

lemma post_hoc_labels_length:
  "length (post_hoc_labels g1 g2 g3) = length (g1 @ g2 @ g3)"
  by (simp add: post_hoc_labels_def)

end
